theory Spec2Isabelle
  imports Main "HOL-Library.Sublist"
begin

section \<open>Python strings\<close>

text \<open>
  A Python \<open>str\<close> is modelled as a \<open>string\<close>: a list of characters, each read as
  the code point of the same number (the code points below 256). The helpers below are
  the \<open>str\<close> methods and builtins the sources call, with Python's behaviour on that
  range.
\<close>

definition startswith :: "string \<Rightarrow> string \<Rightarrow> bool" where
  \<comment> \<open>\<open>s.startswith(p)\<close>\<close>
  "startswith s p = (take (length p) s = p)"

fun replace_first :: "string \<Rightarrow> string \<Rightarrow> string \<Rightarrow> string" where
  \<comment> \<open>\<open>s.replace(old, new, 1)\<close> for a non-empty \<open>old\<close>: the leftmost occurrence only\<close>
  "replace_first [] old new = []"
| "replace_first (c # cs) old new =
     (if startswith (c # cs) old then new @ drop (length old) (c # cs)
      else c # replace_first cs old new)"

definition isspace :: "char \<Rightarrow> bool" where
  \<comment> \<open>\<open>str.isspace\<close> on one character: tab, LF, VT, FF, CR, FS, GS, RS, US, space, NEL, NBSP\<close>
  "isspace c = (c \<in> set [CHR 0x09, CHR 0x0A, CHR 0x0B, CHR 0x0C, CHR 0x0D,
                           CHR 0x1C, CHR 0x1D, CHR 0x1E, CHR 0x1F, CHR 0x20,
                           CHR 0x85, CHR 0xA0])"

definition strip :: "string \<Rightarrow> string" where
  \<comment> \<open>\<open>s.strip()\<close>\<close>
  "strip s = rev (dropWhile isspace (rev (dropWhile isspace s)))"

definition uppercase :: string where
  \<comment> \<open>the characters \<open>str.lower\<close> changes: A-Z and the Latin-1 capitals U+00C0 to U+00DE
     without the multiplication sign U+00D7\<close>
  "uppercase = ''ABCDEFGHIJKLMNOPQRSTUVWXYZ'' @
     [
        CHR 0xC0, CHR 0xC1, CHR 0xC2, CHR 0xC3, CHR 0xC4, CHR 0xC5, CHR 0xC6, CHR 0xC7,
        CHR 0xC8, CHR 0xC9, CHR 0xCA, CHR 0xCB, CHR 0xCC, CHR 0xCD, CHR 0xCE, CHR 0xCF,
        CHR 0xD0, CHR 0xD1, CHR 0xD2, CHR 0xD3, CHR 0xD4, CHR 0xD5, CHR 0xD6, CHR 0xD8,
        CHR 0xD9, CHR 0xDA, CHR 0xDB, CHR 0xDC, CHR 0xDD, CHR 0xDE]"

definition lowercase :: string where
  \<comment> \<open>their lower-case forms, in the same order: a-z and U+00E0 to U+00FE without U+00F7\<close>
  "lowercase = ''abcdefghijklmnopqrstuvwxyz'' @
     [
        CHR 0xE0, CHR 0xE1, CHR 0xE2, CHR 0xE3, CHR 0xE4, CHR 0xE5, CHR 0xE6, CHR 0xE7,
        CHR 0xE8, CHR 0xE9, CHR 0xEA, CHR 0xEB, CHR 0xEC, CHR 0xED, CHR 0xEE, CHR 0xEF,
        CHR 0xF0, CHR 0xF1, CHR 0xF2, CHR 0xF3, CHR 0xF4, CHR 0xF5, CHR 0xF6, CHR 0xF8,
        CHR 0xF9, CHR 0xFA, CHR 0xFB, CHR 0xFC, CHR 0xFD, CHR 0xFE]"

definition lower_char :: "char \<Rightarrow> char" where
  \<comment> \<open>\<open>str.lower\<close> on one character\<close>
  "lower_char c = (case map_of (zip uppercase lowercase) c of Some l \<Rightarrow> l | None \<Rightarrow> c)"

definition lower :: "string \<Rightarrow> string" where
  "lower s = map lower_char s"

fun join :: "string \<Rightarrow> string list \<Rightarrow> string" where
  \<comment> \<open>\<open>sep.join(parts)\<close>\<close>
  "join sep [] = []"
| "join sep [x] = x"
| "join sep (x # y # ys) = x @ sep @ join sep (y # ys)"

definition digit_char :: "nat \<Rightarrow> char" where
  \<comment> \<open>the decimal digit \<open>d\<close>, for \<open>d < 10\<close>\<close>
  "digit_char d = ''0123456789'' ! d"

fun str_nat :: "nat \<Rightarrow> string" where
  \<comment> \<open>\<open>str(n)\<close> of a non-negative integer: its decimal digits\<close>
  "str_nat n = (if n < 10 then [digit_char n] else str_nat (n div 10) @ [digit_char (n mod 10)])"

declare str_nat.simps [simp del]

definition str_int :: "int \<Rightarrow> string" where
  \<comment> \<open>\<open>str(i)\<close> and \<open>f"{i}"\<close> of an integer\<close>
  "str_int i = (if i < 0 then CHR ''-'' # str_nat (nat (- i)) else str_nat (nat i))"

section \<open>Task registry: status translation\<close>

text \<open>
  \<open>_normalize_workflow_status\<close> of \<open>generic/mcp_server.py\<close> and of
  \<open>generic/nmap/mcp_server.py\<close> (the two are the same text). Its argument is
  \<open>None\<close>, an object with a \<open>name\<close> attribute (a member of the engine's status
  enumeration), or any other object, of which only \<open>str(status_obj)\<close> is read.
\<close>

datatype status_obj = PyNone | Named string | Unnamed string

definition normalize_workflow_status :: "status_obj \<Rightarrow> string" where
  "normalize_workflow_status status_obj =
     (case status_obj of
        PyNone \<Rightarrow> ''UNKNOWN''
      | _ \<Rightarrow>
          (let raw = (case status_obj of Named n \<Rightarrow> n | Unnamed s \<Rightarrow> s | PyNone \<Rightarrow> ''None'') in
           if startswith raw ''WORKFLOW_EXECUTION_STATUS_''
           then replace_first raw ''WORKFLOW_EXECUTION_STATUS_'' ''''
           else raw))"

definition run_status_names :: "string set" where
  \<comment> \<open>the four-member Run Status enumeration of the specification\<close>
  "run_status_names = {''RUNNING'', ''COMPLETED'', ''FAILED'', ''UNKNOWN''}"

definition status_text :: "status_obj \<Rightarrow> string option" where
  \<comment> \<open>what \<open>getattr(status_obj, "name", str(status_obj))\<close> reads of a status that is not \<open>None\<close>\<close>
  "status_text status_obj =
     (case status_obj of PyNone \<Rightarrow> None | Named n \<Rightarrow> Some n | Unnamed s \<Rightarrow> Some s)"

section \<open>Errors, processes and the operating system\<close>

text \<open>
  Every \<open>raise\<close> of the sources is a value of \<open>error\<close>; a function that can raise
  returns \<open>error + 'a\<close>. A message that formats a value with \<open>!r\<close> carries the value
  itself here, not its \<open>repr\<close>.
\<close>

datatype error =
    ValueError string
  | RuntimeError string
  | OSError string
  | RPCError string
  | ParseError string
  | ActivityError string

type_synonym bytes = "char list"

text \<open>
  What the activity reads of a spawned process once both pipes are drained and
  \<open>proc.wait()\<close> has returned. The operating system is a function from the argument
  vector given to \<open>asyncio.create_subprocess_exec\<close> to that outcome, or to the error
  the spawn raises. Python \<open>bytes\<close> are lists of 8-bit characters, and
  \<open>bytes.decode("utf-8", errors="replace")\<close> is the parameter \<open>decode\<close> of the two
  executors; on ASCII bytes it is the identity, which the concrete examples use. The
  heartbeat loop between the spawn and the reads only signals and sleeps, and is not
  part of the value computed.
\<close>

record completed_process =
  stdout_bytes :: bytes
  stderr_bytes :: bytes
  returncode :: int

type_synonym os = "string list \<Rightarrow> error + completed_process"

section \<open>Shell variant: generic/workflows.py\<close>

record ShellCommandInput =
  command :: string
  task_id :: string


text \<open>
  The dictionary \<open>run_shell_command\<close> returns and \<open>format_output\<close> reads with
  \<open>raw.get(key, default)\<close>: a key is present (\<open>Some\<close>) or absent.
\<close>

record raw_result =
  raw_stdout :: "string option"
  raw_stderr :: "string option"
  raw_exit_code :: "int option"

definition shell_cmd :: "ShellCommandInput \<Rightarrow> string list" where
  \<comment> \<open>\<open>cmd = ["sh", "-c", cmd_input.command]\<close>\<close>
  "shell_cmd cmd_input = [''sh'', ''-c'', command cmd_input]"

definition run_shell_command ::
  "os \<Rightarrow> (bytes \<Rightarrow> string) \<Rightarrow> ShellCommandInput \<Rightarrow> error + raw_result" where
  "run_shell_command spawn decode cmd_input =
     (case spawn (shell_cmd cmd_input) of
        Inl e \<Rightarrow> Inl e
      | Inr proc \<Rightarrow>
          (let stdout_str = decode (stdout_bytes proc);
               stderr_str = decode (stderr_bytes proc);
               exit_code = returncode proc
           in Inr \<lparr>raw_stdout = Some stdout_str, raw_stderr = Some stderr_str,
                    raw_exit_code = Some exit_code\<rparr>))"

record structured_result =
  sr_stdout :: string
  sr_stderr :: string
  sr_exit_code :: int
  sr_summary :: string

definition format_output :: "raw_result \<Rightarrow> structured_result" where
  "format_output raw =
     (let stdout = (case raw_stdout raw of Some s \<Rightarrow> s | None \<Rightarrow> '''');
          stderr = (case raw_stderr raw of Some s \<Rightarrow> s | None \<Rightarrow> '''');
          exit_code = (case raw_exit_code raw of Some i \<Rightarrow> i | None \<Rightarrow> - 1);
          summary_parts = [''Command exited with code '' @ str_int exit_code @ ''.''];
          summary_parts = summary_parts @
            [if strip stdout \<noteq> []
             then (let preview = take 2000 stdout;
                       truncated = (length stdout > 2000)
                   in ''\<newline>stdout ('' @ str_nat (length stdout) @ '' bytes):\<newline>'' @ preview
                      @ (if truncated then '' [truncated]'' else ''''))
             else ''\<newline>No stdout output.''];
          summary_parts = summary_parts @
            (if strip stderr \<noteq> []
             then [let preview = take 500 stderr;
                       truncated = (length stderr > 500)
                   in ''\<newline>stderr ('' @ str_nat (length stderr) @ '' bytes):\<newline>'' @ preview
                      @ (if truncated then '' [truncated]'' else '''')]
             else [])
      in \<lparr>sr_stdout = stdout, sr_stderr = stderr, sr_exit_code = exit_code,
          sr_summary = join ''\<newline>'' summary_parts\<rparr>)"

definition shell_summary :: "string \<Rightarrow> string \<Rightarrow> int \<Rightarrow> string" where
  \<comment> \<open>the summary \<open>format_output\<close> builds for an execution result with all three keys\<close>
  "shell_summary out err code =
     sr_summary (format_output
       \<lparr>raw_stdout = Some out, raw_stderr = Some err, raw_exit_code = Some code\<rparr>)"

definition truncation_marker :: string where
  \<comment> \<open>the literal marker the specification names\<close>
  "truncation_marker = ''[truncated]''"

section \<open>Scan variant: generic/nmap/workflows.py\<close>

record NmapScanInput =
  target :: string
  nmap_args :: string
  scan_id :: string

definition BLOCKED_METACHARACTERS :: "char set" where
  \<comment> \<open>the character class of the regular expression: \<open>; & | ` $ ( ) { } < >\<close>, LF, CR\<close>
  "BLOCKED_METACHARACTERS =
     set [CHR '';'', CHR ''&'', CHR ''|'', CHR 0x60, CHR ''$'', CHR ''('', CHR '')'',
          CHR ''{'', CHR ''}'', CHR ''<'', CHR ''>'', CHR 0x0A, CHR 0x0D]"

definition blocked_search :: "string \<Rightarrow> bool" where
  \<comment> \<open>\<open>BLOCKED_METACHARACTERS.search(s)\<close> finds a match\<close>
  "blocked_search s = (\<exists>c \<in> set s. c \<in> BLOCKED_METACHARACTERS)"

definition BLOCKED_FLAGS :: "string set" where
  "BLOCKED_FLAGS =
     {''--script-args'', ''-il'', ''-on'', ''-ox'', ''-og'', ''-oa'', ''--datadir''}"

text \<open>
  \<open>shlex.split(s)\<close> of the Python standard library: a \<open>shlex\<close> lexer in POSIX mode
  with \<open>whitespace_split\<close> set and no comment characters, read to the end of input.
  \<open>shlex_run\<close> is the lexer's \<open>read_token\<close> loop, called again after each token:
  the lexer state (\<open>' '\<close>, \<open>'a'\<close>, a quote character, or the escape character with
  the state to return to), the token built so far, the flag \<open>quoted\<close>, and the rest of
  the input. \<open>None\<close> is the \<open>ValueError\<close> of an unclosed quotation or a trailing
  escape.
\<close>

datatype lex_state = Blank | Word | Quoting char | EscapeWord | EscapeQuoting char

definition shlex_whitespace :: "char set" where
  "shlex_whitespace = set [CHR '' '', CHR 0x09, CHR 0x0D, CHR 0x0A]"

definition shlex_quotes :: "char set" where
  "shlex_quotes = set [CHR 0x27, CHR 0x22]"

definition emit :: "string \<Rightarrow> string list option \<Rightarrow> string list option" where
  "emit tok rest = (case rest of None \<Rightarrow> None | Some toks \<Rightarrow> Some (tok # toks))"

fun shlex_run :: "lex_state \<Rightarrow> string \<Rightarrow> bool \<Rightarrow> string \<Rightarrow> string list option" where
  "shlex_run Blank tok quoted [] = (if tok \<noteq> [] \<or> quoted then Some [tok] else Some [])"
| "shlex_run Word tok quoted [] = (if tok \<noteq> [] \<or> quoted then Some [tok] else Some [])"
| "shlex_run (Quoting q) tok quoted [] = None"
| "shlex_run EscapeWord tok quoted [] = None"
| "shlex_run (EscapeQuoting q) tok quoted [] = None"
| "shlex_run Blank tok quoted (c # cs) =
     (if c \<in> shlex_whitespace then
        (if tok \<noteq> [] \<or> quoted then emit tok (shlex_run Blank [] False cs)
         else shlex_run Blank tok quoted cs)
      else if c = CHR 0x5C then shlex_run EscapeWord tok quoted cs
      else if c \<in> shlex_quotes then shlex_run (Quoting c) tok quoted cs
      else shlex_run Word [c] quoted cs)"
| "shlex_run (Quoting q) tok quoted (c # cs) =
     (if c = q then shlex_run Word tok True cs
      else if c = CHR 0x5C \<and> q = CHR 0x22 then shlex_run (EscapeQuoting q) tok True cs
      else shlex_run (Quoting q) (tok @ [c]) True cs)"
| "shlex_run EscapeWord tok quoted (c # cs) = shlex_run Word (tok @ [c]) quoted cs"
| "shlex_run (EscapeQuoting q) tok quoted (c # cs) =
     (if c \<noteq> CHR 0x5C \<and> c \<noteq> q then shlex_run (Quoting q) (tok @ [CHR 0x5C, c]) quoted cs
      else shlex_run (Quoting q) (tok @ [c]) quoted cs)"
| "shlex_run Word tok quoted (c # cs) =
     (if c \<in> shlex_whitespace then
        (if tok \<noteq> [] \<or> quoted then emit tok (shlex_run Blank [] False cs)
         else shlex_run Blank tok quoted cs)
      else if c \<in> shlex_quotes then shlex_run (Quoting c) tok quoted cs
      else if c = CHR 0x5C then shlex_run EscapeWord tok quoted cs
      else shlex_run Word (tok @ [c]) quoted cs)"

definition shlex_split :: "string \<Rightarrow> string list option" where
  "shlex_split s = shlex_run Blank [] False s"

definition scan_tokens :: "string \<Rightarrow> string list option" where
  \<comment> \<open>\<open>shlex.split(args) if args.strip() else []\<close>\<close>
  "scan_tokens args = (if strip args \<noteq> [] then shlex_split args else Some [])"

definition canonical :: "string \<Rightarrow> string" where
  \<comment> \<open>\<open>token.split("=", 1)[0].lower()\<close>\<close>
  "canonical token = lower (takeWhile (\<lambda>c. c \<noteq> CHR ''='') token)"

fun check_flags :: "string list \<Rightarrow> error option" where
  \<comment> \<open>the loop over the tokens: the first blocked flag raises\<close>
  "check_flags [] = None"
| "check_flags (token # tokens) =
     (if canonical token \<in> BLOCKED_FLAGS
      then Some (ValueError (''Blocked nmap flag: '' @ canonical token))
      else check_flags tokens)"

definition validate_scan_input :: "NmapScanInput \<Rightarrow> error + bool" where
  "validate_scan_input scan_input =
     (let tgt = target scan_input; args = nmap_args scan_input in
      if blocked_search tgt
      then Inl (ValueError (''Target contains blocked characters: '' @ tgt))
      else if blocked_search args
      then Inl (ValueError (''Arguments contain blocked characters: '' @ args))
      else
        (case scan_tokens args of
           None \<Rightarrow> Inl (ValueError ''Arguments are not parseable'')
         | Some tokens \<Rightarrow>
             (case check_flags tokens of
                Some e \<Rightarrow> Inl e
              | None \<Rightarrow>
                  if strip tgt = [] then Inl (ValueError ''Target must not be empty'')
                  else Inr True)))"

definition nmap_cmd :: "NmapScanInput \<Rightarrow> error + string list" where
  \<comment> \<open>\<open>cmd = ["nmap", *args_tokens, "-oX", "-", scan_input.target]\<close>\<close>
  "nmap_cmd scan_input =
     (case scan_tokens (nmap_args scan_input) of
        None \<Rightarrow> Inl (ValueError ''No closing quotation or no escaped character'')
      | Some args_tokens \<Rightarrow> Inr ([''nmap''] @ args_tokens @ [''-oX'', ''-'', target scan_input]))"

definition nmap_finish :: "(bytes \<Rightarrow> string) \<Rightarrow> completed_process \<Rightarrow> error + string" where
  \<comment> \<open>\<open>run_nmap_scan\<close> from the reads of the two streams on\<close>
  "nmap_finish decode proc =
     (let return_code = returncode proc;
          stdout_str = decode (stdout_bytes proc);
          stderr_str = decode (stderr_bytes proc)
      in if return_code \<noteq> 0 \<and> strip stdout_str = []
         then Inl (RuntimeError (''nmap exited with code '' @ str_int return_code
                                  @ ''. stderr: '' @ stderr_str))
         else Inr stdout_str)"

definition run_nmap_scan ::
  "os \<Rightarrow> (bytes \<Rightarrow> string) \<Rightarrow> NmapScanInput \<Rightarrow> error + string" where
  "run_nmap_scan spawn decode scan_input =
     (case nmap_cmd scan_input of
        Inl e \<Rightarrow> Inl e
      | Inr cmd \<Rightarrow>
          (case spawn cmd of
             Inl e \<Rightarrow> Inl e
           | Inr proc \<Rightarrow> nmap_finish decode proc))"

section \<open>Scan structurer: parse_nmap_xml of generic/nmap/workflows.py\<close>

text \<open>
  The document tree \<open>xml.etree.ElementTree\<close> builds: an element has a tag, its
  attributes and its child elements (text is never read by the parser below).
  \<open>ET.fromstring\<close> itself, the XML reader of the standard library, is the parameter
  \<open>fromstring\<close> of \<open>parse_nmap_xml\<close>: \<open>None\<close> stands for its \<open>ParseError\<close>.
\<close>

datatype element = Element (el_tag: string) (el_attrib: "(string \<times> string) list")
  (el_children: "element list")

definition get_attr :: "element \<Rightarrow> string \<Rightarrow> string \<Rightarrow> string" where
  \<comment> \<open>\<open>elem.get(key, default)\<close>\<close>
  "get_attr elem key dflt =
     (case map_of (el_attrib elem) key of Some v \<Rightarrow> v | None \<Rightarrow> dflt)"

definition find_elem :: "element \<Rightarrow> string \<Rightarrow> element option" where
  \<comment> \<open>\<open>elem.find(tag)\<close>: the first child with that tag\<close>
  "find_elem elem t = List.find (\<lambda>c. el_tag c = t) (el_children elem)"

definition findall :: "element \<Rightarrow> string \<Rightarrow> element list" where
  \<comment> \<open>\<open>elem.findall(tag)\<close>: the children with that tag, in document order\<close>
  "findall elem t = filter (\<lambda>c. el_tag c = t) (el_children elem)"

definition digit_value :: "char \<Rightarrow> nat option" where
  "digit_value c = map_of (zip ''0123456789'' [0, 1, 2, 3, 4, 5, 6, 7, 8, 9]) c"

fun int_digits :: "nat \<Rightarrow> bool \<Rightarrow> string \<Rightarrow> nat option" where
  \<comment> \<open>decimal digits, with single underscores between digits only\<close>
  "int_digits acc after_digit [] = (if after_digit then Some acc else None)"
| "int_digits acc after_digit (c # cs) =
     (case digit_value c of
        Some d \<Rightarrow> int_digits (10 * acc + d) True cs
      | None \<Rightarrow> if c = CHR ''_'' \<and> after_digit then int_digits acc False cs else None)"

definition py_int :: "string \<Rightarrow> int option" where
  \<comment> \<open>\<open>int(s)\<close> of a string: surrounding whitespace, an optional sign, digits;
     \<open>None\<close> is the \<open>ValueError\<close>\<close>
  "py_int s =
     (case strip s of
        [] \<Rightarrow> None
      | c # cs \<Rightarrow>
          if c = CHR ''-'' then map_option (\<lambda>n. - int n) (int_digits 0 False cs)
          else if c = CHR ''+'' then map_option int (int_digits 0 False cs)
          else map_option int (int_digits 0 False (c # cs)))"

definition int_attr :: "element \<Rightarrow> string \<Rightarrow> error + int" where
  \<comment> \<open>\<open>int(elem.get(key, 0))\<close>: the default is the integer 0\<close>
  "int_attr elem key =
     (case map_of (el_attrib elem) key of
        None \<Rightarrow> Inr 0
      | Some s \<Rightarrow>
          (case py_int s of
             None \<Rightarrow> Inl (ValueError (''invalid literal for int() with base 10: '' @ s))
           | Some i \<Rightarrow> Inr i))"

fun map_result :: "('a \<Rightarrow> error + 'b) \<Rightarrow> 'a list \<Rightarrow> error + 'b list" where
  \<comment> \<open>a \<open>for\<close> loop that appends one value per item: the first exception leaves the loop\<close>
  "map_result f [] = Inr []"
| "map_result f (x # xs) =
     (case f x of
        Inl e \<Rightarrow> Inl e
      | Inr y \<Rightarrow> (case map_result f xs of Inl e \<Rightarrow> Inl e | Inr ys \<Rightarrow> Inr (y # ys)))"

record script =
  script_id :: string
  script_output :: string

record port_data =
  p_port :: int
  p_protocol :: string
  p_state :: "string option"
  p_reason :: "string option"
  p_service :: "string option"
  p_product :: "string option"
  p_version :: "string option"
  p_extra_info :: "string option"
  p_scripts :: "script list option"

record address =
  a_addr :: string
  a_type :: string
  a_vendor :: string

record hostname =
  hn_name :: string
  hn_type :: string

record os_match =
  os_name :: string
  os_accuracy :: string

record host =
  h_status :: "string option"
  h_addresses :: "address list"
  h_hostnames :: "hostname list"
  h_ports :: "port_data list"
  h_os_matches :: "os_match list"
  h_host_scripts :: "script list option"
  h_open_ports_summary :: string

record scan_info =
  si_scanner :: string
  si_args :: string
  si_start_time :: string
  si_xml_version :: string
  si_end_time :: "string option"
  si_elapsed :: "string option"
  si_hosts_up :: "int option"
  si_hosts_down :: "int option"
  si_hosts_total :: "int option"

record scan_result =
  r_scan_info :: scan_info
  r_hosts :: "host list"
  r_summary :: string

definition parse_script :: "element \<Rightarrow> script" where
  "parse_script script_elem =
     \<lparr>script_id = get_attr script_elem ''id'' '''',
      script_output = get_attr script_elem ''output'' ''''\<rparr>"

definition parse_port :: "element \<Rightarrow> error + port_data" where
  "parse_port port_elem =
     (case int_attr port_elem ''portid'' of
        Inl e \<Rightarrow> Inl e
      | Inr portid \<Rightarrow>
          (let state_elem = find_elem port_elem ''state'';
               service_elem = find_elem port_elem ''service'';
               scripts = map parse_script (findall port_elem ''script'')
           in Inr \<lparr>p_port = portid,
                    p_protocol = get_attr port_elem ''protocol'' '''',
                    p_state = map_option (\<lambda>e. get_attr e ''state'' '''') state_elem,
                    p_reason = map_option (\<lambda>e. get_attr e ''reason'' '''') state_elem,
                    p_service = map_option (\<lambda>e. get_attr e ''name'' '''') service_elem,
                    p_product = map_option (\<lambda>e. get_attr e ''product'' '''') service_elem,
                    p_version = map_option (\<lambda>e. get_attr e ''version'' '''') service_elem,
                    p_extra_info = map_option (\<lambda>e. get_attr e ''extrainfo'' '''') service_elem,
                    p_scripts = (if scripts \<noteq> [] then Some scripts else None)\<rparr>))"

definition port_entry :: "port_data \<Rightarrow> string" where
  \<comment> \<open>\<open>f"{p['port']}/{p['protocol']} ({p.get('service', 'unknown')})"\<close>\<close>
  "port_entry p =
     str_int (p_port p) @ ''/'' @ p_protocol p @ '' (''
       @ (case p_service p of Some s \<Rightarrow> s | None \<Rightarrow> ''unknown'') @ '')''"

definition parse_host :: "element \<Rightarrow> error + host" where
  "parse_host host_elem =
     (let status = map_option (\<lambda>e. get_attr e ''state'' ''unknown'') (find_elem host_elem ''status'');
          addresses = map (\<lambda>addr. \<lparr>a_addr = get_attr addr ''addr'' '''',
                                    a_type = get_attr addr ''addrtype'' '''',
                                    a_vendor = get_attr addr ''vendor'' ''''\<rparr>)
                        (findall host_elem ''address'');
          hostnames = (case find_elem host_elem ''hostnames'' of
                         None \<Rightarrow> []
                       | Some hostnames_elem \<Rightarrow>
                           map (\<lambda>hn. \<lparr>hn_name = get_attr hn ''name'' '''',
                                      hn_type = get_attr hn ''type'' ''''\<rparr>)
                             (findall hostnames_elem ''hostname''))
      in case (case find_elem host_elem ''ports'' of
                 None \<Rightarrow> Inr []
               | Some ports_elem \<Rightarrow> map_result parse_port (findall ports_elem ''port'')) of
           Inl e \<Rightarrow> Inl e
         | Inr ports \<Rightarrow>
             (let os_matches = (case find_elem host_elem ''os'' of
                                  None \<Rightarrow> []
                                | Some os_elem \<Rightarrow>
                                    map (\<lambda>osmatch. \<lparr>os_name = get_attr osmatch ''name'' '''',
                                                     os_accuracy = get_attr osmatch ''accuracy'' ''''\<rparr>)
                                      (findall os_elem ''osmatch''));
                  host_scripts = (case find_elem host_elem ''hostscript'' of
                                    None \<Rightarrow> []
                                  | Some hostscript_elem \<Rightarrow>
                                      map parse_script (findall hostscript_elem ''script''));
                  open_ports = filter (\<lambda>p. p_state p = Some ''open'') ports
              in Inr \<lparr>h_status = status, h_addresses = addresses, h_hostnames = hostnames,
                       h_ports = ports, h_os_matches = os_matches,
                       h_host_scripts = (if host_scripts \<noteq> [] then Some host_scripts else None),
                       h_open_ports_summary = join '', '' (map port_entry open_ports)\<rparr>))"

definition parse_scan_info :: "element \<Rightarrow> error + scan_info" where
  "parse_scan_info root =
     (let info = \<lparr>si_scanner = get_attr root ''scanner'' ''nmap'',
                  si_args = get_attr root ''args'' '''',
                  si_start_time = get_attr root ''startstr'' '''',
                  si_xml_version = get_attr root ''xmloutputversion'' '''',
                  si_end_time = None, si_elapsed = None,
                  si_hosts_up = None, si_hosts_down = None, si_hosts_total = None\<rparr>
      in case find_elem root ''runstats'' of
           None \<Rightarrow> Inr info
         | Some run_stats \<Rightarrow>
             (let info = (case find_elem run_stats ''finished'' of
                            None \<Rightarrow> info
                          | Some finished \<Rightarrow>
                              info\<lparr>si_end_time := Some (get_attr finished ''timestr'' ''''),
                                   si_elapsed := Some (get_attr finished ''elapsed'' '''')\<rparr>)
              in case find_elem run_stats ''hosts'' of
                   None \<Rightarrow> Inr info
                 | Some hosts_elem \<Rightarrow>
                     (case int_attr hosts_elem ''up'' of
                        Inl e \<Rightarrow> Inl e
                      | Inr n_up \<Rightarrow>
                          (case int_attr hosts_elem ''down'' of
                             Inl e \<Rightarrow> Inl e
                           | Inr n_down \<Rightarrow>
                               (case int_attr hosts_elem ''total'' of
                                  Inl e \<Rightarrow> Inl e
                                | Inr n_total \<Rightarrow>
                                    Inr (info\<lparr>si_hosts_up := Some n_up,
                                             si_hosts_down := Some n_down,
                                             si_hosts_total := Some n_total\<rparr>))))))"

definition host_lines :: "nat \<Rightarrow> host \<Rightarrow> string list" where
  \<comment> \<open>what one round of the \<open>enumerate(hosts)\<close> loop appends to \<open>summary_parts\<close>\<close>
  "host_lines i h =
     (let addr_str = join '', '' (map a_addr (h_addresses h));
          hostname_str = join '', '' (filter (\<lambda>n. n \<noteq> []) (map hn_name (h_hostnames h)));
          host_label = addr_str @ (if hostname_str \<noteq> [] then '' ('' @ hostname_str @ '')'' else [])
      in [''\<newline>Host '' @ str_nat (i + 1) @ '': '' @ host_label @ '' [''
            @ (case h_status h of Some s \<Rightarrow> s | None \<Rightarrow> ''?'') @ '']'']
         @ [if h_open_ports_summary h \<noteq> []
            then ''  Open ports: '' @ h_open_ports_summary h
            else ''  No open ports found.'']
         @ map (\<lambda>osm. ''  OS guess: '' @ os_name osm @ '' ('' @ os_accuracy osm @ ''% accuracy)'')
             (take 3 (h_os_matches h)))"

fun hosts_lines :: "nat \<Rightarrow> host list \<Rightarrow> string list" where
  "hosts_lines i [] = []"
| "hosts_lines i (h # hs) = host_lines i h @ hosts_lines (i + 1) hs"

definition scan_summary_parts :: "scan_info \<Rightarrow> host list \<Rightarrow> string list" where
  "scan_summary_parts info hosts =
     [''Nmap scan completed. ''
        @ (case si_hosts_up info of Some n \<Rightarrow> str_int n | None \<Rightarrow> ''?'') @ '' host(s) up out of ''
        @ (case si_hosts_total info of Some n \<Rightarrow> str_int n | None \<Rightarrow> ''?'') @ '' scanned.'']
     @ hosts_lines 0 hosts"

definition parse_root :: "element \<Rightarrow> error + scan_result" where
  \<comment> \<open>\<open>parse_nmap_xml\<close> from the parsed document on\<close>
  "parse_root root =
     (case parse_scan_info root of
        Inl e \<Rightarrow> Inl e
      | Inr info \<Rightarrow>
          (case map_result parse_host (findall root ''host'') of
             Inl e \<Rightarrow> Inl e
           | Inr hosts \<Rightarrow>
               Inr \<lparr>r_scan_info = info, r_hosts = hosts,
                    r_summary = join ''\<newline>'' (scan_summary_parts info hosts)\<rparr>))"

definition parse_nmap_xml :: "(string \<Rightarrow> element option) \<Rightarrow> string \<Rightarrow> error + scan_result" where
  "parse_nmap_xml fromstring raw_xml =
     (case fromstring raw_xml of
        None \<Rightarrow> Inl (ParseError ''not well-formed'')
      | Some root \<Rightarrow> parse_root root)"

text \<open>
  The fixture of the specification's round-trip property, as the document tree of
  \<^verbatim>\<open><nmaprun scanner="nmap"><host><status state="up"/><address addr="45.33.32.156"
  addrtype="ipv4"/><ports><port protocol="tcp" portid="22"><state state="open"
  reason="syn-ack"/><service name="ssh"/></port></ports></host><runstats><hosts up="1"
  down="0" total="1"/></runstats></nmaprun>\<close>.
\<close>

definition fixture_port :: element where
  "fixture_port =
     Element ''port'' [(''protocol'', ''tcp''), (''portid'', ''22'')]
       [Element ''state'' [(''state'', ''open''), (''reason'', ''syn-ack'')] [],
        Element ''service'' [(''name'', ''ssh'')] []]"

definition fixture_host :: element where
  "fixture_host =
     Element ''host'' []
       [Element ''status'' [(''state'', ''up'')] [],
        Element ''address'' [(''addr'', ''45.33.32.156''), (''addrtype'', ''ipv4'')] [],
        Element ''ports'' [] [fixture_port]]"

definition fixture_root :: element where
  "fixture_root =
     Element ''nmaprun'' [(''scanner'', ''nmap'')]
       [fixture_host,
        Element ''runstats'' []
          [Element ''hosts'' [(''up'', ''1''), (''down'', ''0''), (''total'', ''1'')] []]]"

section \<open>Pipeline orchestrator: the two workflows\<close>













section \<open>Task registry: generic/mcp_server.py\<close>

text \<open>
  The registry is the dictionary \<open>_task_registry\<close>, in insertion order. The engine's
  client is what the tools read of it: \<open>handle.describe()\<close>, followed by
  \<open>.status\<close>, and \<open>handle.result()\<close>, each of which can raise; \<open>_get_client()\<close>
  returns the client or raises. The tools of \<open>generic/nmap/mcp_server.py\<close> are the
  same text with \<open>scan\<close> for \<open>task\<close>. The parameter \<open>task_id\<close> of the tools
  is written \<open>tid\<close>.
\<close>

record task_meta =
  tm_command :: string
  tm_label :: string
  tm_started_at :: string
  tm_status :: string

type_synonym registry = "(string \<times> task_meta) list"

record client =
  describe_status :: "string \<Rightarrow> error + status_obj"
  handle_result :: "string \<Rightarrow> error + structured_result"

definition set_status :: "registry \<Rightarrow> string \<Rightarrow> string \<Rightarrow> registry" where
  \<comment> \<open>\<open>if task_id in _task_registry: _task_registry[task_id]["status"] = status_name\<close>\<close>
  "set_status reg tid status_name =
     map (\<lambda>(k, meta). if k = tid then (k, meta\<lparr>tm_status := status_name\<rparr>) else (k, meta)) reg"

record check_result =
  cr_task_id :: string
  cr_status :: string
  cr_label :: "string option"
  cr_command :: "string option"
  cr_started_at :: "string option"
  cr_message :: string

definition check_task_status ::
  "(error + client) \<Rightarrow> registry \<Rightarrow> string \<Rightarrow> (error + check_result) \<times> registry" where
  "check_task_status get_client reg tid =
     (case get_client of
        Inl e \<Rightarrow> (Inl e, reg)
      | Inr cl \<Rightarrow>
          (case describe_status cl tid of
             Inl e \<Rightarrow> (Inl e, reg)
           | Inr status \<Rightarrow>
               (let status_name = normalize_workflow_status status;
                    reg = set_status reg tid status_name;
                    known = map_of reg tid
                in (Inr \<lparr>cr_task_id = tid, cr_status = status_name,
                         cr_label = map_option tm_label known,
                         cr_command = map_option tm_command known,
                         cr_started_at = map_option tm_started_at known,
                         cr_message =
                           (if status_name = ''COMPLETED''
                            then ''Task finished! Use get_task_results('' @ [CHR 0x27] @ tid
                                 @ [CHR 0x27] @ '') to retrieve results.''
                            else if status_name = ''FAILED''
                            then ''Task failed. Check Temporal UI at :8080 for details.''
                            else if status_name = ''RUNNING''
                            then ''Task is still running. Check again shortly.''
                            else ''Workflow status: '' @ status_name)\<rparr>,
                    reg))))"

datatype fetch_result =
    NotComplete string string string
  | Completed string structured_result

definition get_task_results ::
  "(error + client) \<Rightarrow> registry \<Rightarrow> string \<Rightarrow> (error + fetch_result) \<times> registry" where
  "get_task_results get_client reg tid =
     (case get_client of
        Inl e \<Rightarrow> (Inl e, reg)
      | Inr cl \<Rightarrow>
          (case describe_status cl tid of
             Inl e \<Rightarrow> (Inl e, reg)
           | Inr status \<Rightarrow>
               (let status_name = normalize_workflow_status status in
                if status_name \<noteq> ''COMPLETED''
                then (Inr (NotComplete tid status_name
                        (''Task is not yet complete (status: '' @ status_name
                          @ ''). Use check_task_status() to poll.'')), reg)
                else (case handle_result cl tid of
                        Inl e \<Rightarrow> (Inl e, reg)
                      | Inr result \<Rightarrow>
                          (Inr (Completed tid result),
                           set_status reg tid ''COMPLETED'')))))"

definition refresh :: "client \<Rightarrow> string \<times> task_meta \<Rightarrow> string \<times> task_meta" where
  \<comment> \<open>one round of the loop of \<open>list_recent_tasks\<close>: the entry listed for a task\<close>
  "refresh cl item =
     (case item of
        (tid, meta) \<Rightarrow>
          if tm_status meta = ''RUNNING'' \<or> tm_status meta = ''UNKNOWN''
          then (case describe_status cl tid of
                  Inr status \<Rightarrow> (tid, meta\<lparr>tm_status := normalize_workflow_status status\<rparr>)
                | Inl e \<Rightarrow> (tid, meta\<lparr>tm_status := ''UNKNOWN''\<rparr>))
          else (tid, meta))"

definition list_recent_tasks ::
  "(error + client) \<Rightarrow> registry \<Rightarrow> (error + nat \<times> (string \<times> task_meta) list) \<times> registry" where
  \<comment> \<open>the listing, and the registry after it: a refresh that raised leaves the stored
     status as it was\<close>
  "list_recent_tasks get_client reg =
     (case get_client of
        Inl e \<Rightarrow> (Inl e, reg)
      | Inr cl \<Rightarrow>
          (let tasks = map (refresh cl) reg
           in (Inr (length tasks, tasks),
               map (\<lambda>(tid, meta).
                      if tm_status meta = ''RUNNING'' \<or> tm_status meta = ''UNKNOWN''
                      then (case describe_status cl tid of
                              Inr status \<Rightarrow>
                                (tid, meta\<lparr>tm_status := normalize_workflow_status status\<rparr>)
                            | Inl e \<Rightarrow> (tid, meta))
                      else (tid, meta)) reg)))"

section \<open>Status translation: results\<close>

lemma replace_first_prefix:
  "startswith s old \<Longrightarrow> old \<noteq> [] \<Longrightarrow> replace_first s old [] = drop (length old) s"
  by (cases s) (auto simp: startswith_def)

lemma status_prefix_length: "length ''WORKFLOW_EXECUTION_STATUS_'' = 26"
  by simp

lemma replace_status_prefix:
  "startswith raw ''WORKFLOW_EXECUTION_STATUS_'' \<Longrightarrow>
   replace_first raw ''WORKFLOW_EXECUTION_STATUS_'' [] = drop 26 raw"
  using replace_first_prefix [of raw "''WORKFLOW_EXECUTION_STATUS_''"]
  by (simp only: status_prefix_length) simp

lemma normalize_workflow_status_text:
  "status_text st = Some raw \<Longrightarrow>
   normalize_workflow_status st =
     (if startswith raw ''WORKFLOW_EXECUTION_STATUS_'' then drop 26 raw else raw)"
  by (cases st)
    (simp_all add: normalize_workflow_status_def status_text_def replace_status_prefix
      del: replace_first.simps)

text \<open>
  C3, as the code has it. \<open>None\<close> gives UNKNOWN. Any other status gives its own name
  (or its \<open>str\<close>), with the first 26 characters dropped when the name starts with
  \<open>WORKFLOW_EXECUTION_STATUS_\<close>, and nothing else is changed: an unrecognised name is
  returned as it is, not as UNKNOWN. The result is therefore one of the four Run Status
  names exactly when the name read from the status, prefix removed, is one of them.
\<close>

theorem normalize_workflow_status_passes_name_through:
  "normalize_workflow_status PyNone = ''UNKNOWN'' \<and>
   (\<forall>raw. status_text st = Some raw \<longrightarrow>
      normalize_workflow_status st =
        (if startswith raw ''WORKFLOW_EXECUTION_STATUS_'' then drop 26 raw else raw) \<and>
      (normalize_workflow_status st \<in> run_status_names \<longleftrightarrow>
        (if startswith raw ''WORKFLOW_EXECUTION_STATUS_'' then drop 26 raw else raw)
          \<in> run_status_names))"
proof (intro conjI allI impI)
  show "normalize_workflow_status PyNone = ''UNKNOWN''"
    by (simp add: normalize_workflow_status_def)
next
  fix raw assume h: "status_text st = Some raw"
  show "normalize_workflow_status st =
        (if startswith raw ''WORKFLOW_EXECUTION_STATUS_'' then drop 26 raw else raw)"
    by (rule normalize_workflow_status_text [OF h])
  then show "normalize_workflow_status st \<in> run_status_names \<longleftrightarrow>
        (if startswith raw ''WORKFLOW_EXECUTION_STATUS_'' then drop 26 raw else raw)
          \<in> run_status_names"
    by simp
qed

theorem normalize_workflow_status_passes_name_through_witness:
  "status_text (Named ''WORKFLOW_EXECUTION_STATUS_RUNNING'') =
     Some ''WORKFLOW_EXECUTION_STATUS_RUNNING'' \<and>
   normalize_workflow_status (Named ''WORKFLOW_EXECUTION_STATUS_RUNNING'') = ''RUNNING'' \<and>
   normalize_workflow_status (Named ''WORKFLOW_EXECUTION_STATUS_RUNNING'') \<in> run_status_names"
  using normalize_workflow_status_passes_name_through
    [of "Named ''WORKFLOW_EXECUTION_STATUS_RUNNING''"]
  by (simp add: status_text_def startswith_def run_status_names_def)

text \<open>
  C3 as stated fails: the engine status TERMINATED is translated to the string
  TERMINATED, which is none of RUNNING, COMPLETED, FAILED, UNKNOWN.
\<close>

theorem normalize_workflow_status_terminated_counterexample:
  "normalize_workflow_status (Named ''TERMINATED'') = ''TERMINATED'' \<and>
   normalize_workflow_status (Named ''TERMINATED'') \<notin> run_status_names"
  by (simp add: normalize_workflow_status_def startswith_def run_status_names_def)

section \<open>Strings: facts\<close>

lemma digit_char_range: "d < 10 \<Longrightarrow> digit_char d \<in> set ''0123456789''"
  unfolding digit_char_def by (rule nth_mem) simp

lemma str_nat_digits: "c \<in> set (str_nat n) \<Longrightarrow> c \<in> set ''0123456789''"
proof (induction n rule: str_nat.induct)
  case (1 n)
  show ?case
  proof (cases "n < 10")
    case True
    with 1(2) have "c = digit_char n" by (subst (asm) str_nat.simps) simp
    with True show ?thesis using digit_char_range [of n] by blast
  next
    case False
    with 1(2) have "c \<in> set (str_nat (n div 10)) \<or> c = digit_char (n mod 10)"
      by (subst (asm) str_nat.simps) auto
    then show ?thesis
    proof
      assume "c \<in> set (str_nat (n div 10))"
      with False 1(1) show ?thesis by blast
    next
      assume "c = digit_char (n mod 10)"
      then show ?thesis using digit_char_range [of "n mod 10"] by simp
    qed
  qed
qed

lemma str_int_chars: "c \<in> set (str_int i) \<Longrightarrow> c \<in> set ''-0123456789''"
proof (cases "i < 0")
  case True
  assume "c \<in> set (str_int i)"
  with True have "c = CHR ''-'' \<or> c \<in> set (str_nat (nat (- i)))" by (simp add: str_int_def)
  then show ?thesis using str_nat_digits [of c "nat (- i)"] by auto
next
  case False
  assume "c \<in> set (str_int i)"
  with False have "c \<in> set (str_nat (nat i))" by (simp add: str_int_def)
  then show ?thesis using str_nat_digits [of c "nat i"] by auto
qed

lemma dropWhile_all: "(\<forall>x\<in>set (dropWhile P xs). P x) \<longleftrightarrow> (\<forall>x\<in>set xs. P x)"
  by (induction xs) auto

lemma strip_empty_iff: "strip s = [] \<longleftrightarrow> (\<forall>c\<in>set s. isspace c)"
proof -
  have "strip s = [] \<longleftrightarrow> (\<forall>x\<in>set (rev (dropWhile isspace s)). isspace x)"
    by (simp add: strip_def dropWhile_eq_Nil_conv)
  also have "\<dots> \<longleftrightarrow> (\<forall>x\<in>set (dropWhile isspace s). isspace x)" by simp
  also have "\<dots> \<longleftrightarrow> (\<forall>c\<in>set s. isspace c)" by (rule dropWhile_all)
  finally show ?thesis .
qed



lemma sublist_skip_prefix:
  assumes "a \<notin> set xs" and "sublist (a # m) (xs @ ys)"
  shows "sublist (a # m) ys"
  using assms
proof (induction xs)
  case Nil then show ?case by simp
next
  case (Cons x xs)
  from Cons.prems(1) have ne: "x \<noteq> a" and nin: "a \<notin> set xs" by auto
  from Cons.prems(2) have "prefix (a # m) (x # (xs @ ys)) \<or> sublist (a # m) (xs @ ys)"
    by (simp only: append_Cons sublist_Cons_right)
  with ne have "sublist (a # m) (xs @ ys)" by simp
  with Cons.IH nin show ?case by blast
qed

lemma sublist_split_at:
  assumes "c \<notin> set m" and "sublist m (xs @ c # ys)"
  shows "sublist m xs \<or> sublist m ys"
proof -
  from assms(2) consider "sublist m xs" | "sublist m (c # ys)"
    | xs1 xs2 where "m = xs1 @ xs2" "suffix xs1 xs" "prefix xs2 (c # ys)"
    unfolding sublist_append by blast
  then show ?thesis
  proof cases
    case 1 then show ?thesis by simp
  next
    case 2
    then have "prefix m (c # ys) \<or> sublist m ys" by (simp only: sublist_Cons_right)
    moreover have "m = []" if "prefix m (c # ys)"
    proof (cases m)
      case Nil then show ?thesis .
    next
      case (Cons a as)
      with that have "a = c" by simp
      with Cons assms(1) show ?thesis by simp
    qed
    ultimately show ?thesis by auto
  next
    case 3
    have "xs2 = []"
    proof (cases xs2)
      case Nil then show ?thesis .
    next
      case (Cons a as)
      with 3(3) have "a = c" by simp
      with Cons 3(1) assms(1) show ?thesis by simp
    qed
    with 3 have "suffix m xs" by simp
    then show ?thesis by (simp add: suffix_imp_sublist)
  qed
qed




lemma marker_after_prefix:
  assumes "a \<notin> set pre"
  shows "sublist (a # m) (pre @ body) \<longleftrightarrow> sublist (a # m) body"
  using assms sublist_skip_prefix [of a pre m body] by (auto simp: sublist_append)

lemma marker_around:
  assumes "c \<notin> set m"
  shows "sublist m (xs @ c # ys) \<longleftrightarrow> sublist m xs \<or> sublist m ys"
proof
  assume "sublist m (xs @ c # ys)"
  with assms show "sublist m xs \<or> sublist m ys" by (rule sublist_split_at)
next
  assume "sublist m xs \<or> sublist m ys"
  then show "sublist m (xs @ c # ys)"
    by (auto simp: sublist_append sublist_Cons_right)
qed

lemma summary_shape:
  "sr_summary (format_output \<lparr>raw_stdout = Some out, raw_stderr = Some err, raw_exit_code = Some code\<rparr>) =
     (''Command exited with code '' @ str_int code @ ''.\<newline>'') @
     (if strip out \<noteq> []
      then (''\<newline>stdout ('' @ str_nat (length out) @ '' bytes):\<newline>'') @ take 2000 out
           @ (if 2000 < length out then '' [truncated]'' else [])
      else ''\<newline>No stdout output.'') @
     (if strip err \<noteq> []
      then CHR ''\<newline>'' # (''\<newline>stderr ('' @ str_nat (length err) @ '' bytes):\<newline>'') @ take 500 err
           @ (if 500 < length err then '' [truncated]'' else [])
      else [])"
  by (simp add: format_output_def Let_def)

lemma bracket_not_in_exit_line:
  "CHR ''['' \<notin> set (''Command exited with code '' @ str_int code @ ''.\<newline>'')"
  using str_int_chars [of "CHR ''[''" code] by auto

lemma bracket_not_in_stdout_header:
  "CHR ''['' \<notin> set (''\<newline>stdout ('' @ str_nat n @ '' bytes):\<newline>'')"
  using str_nat_digits [of "CHR ''[''" n] by auto

lemma bracket_not_in_stderr_header:
  "CHR ''['' \<notin> set (''\<newline>stderr ('' @ str_nat n @ '' bytes):\<newline>'')"
  using str_nat_digits [of "CHR ''[''" n] by auto

lemma marker_in_preview:
  "sublist truncation_marker (take n s @ (if n < length s then '' [truncated]'' else [])) \<longleftrightarrow>
     n < length s \<or> sublist truncation_marker s"
proof (cases "n < length s")
  case True
  have "sublist truncation_marker ((take n s @ '' '') @ truncation_marker @ [])"
    by (rule sublist_appendI)
  with True show ?thesis by (simp add: truncation_marker_def)
next
  case False
  then show ?thesis by simp
qed

lemma marker_has_bracket: "sublist truncation_marker s \<Longrightarrow> CHR ''['' \<in> set s"
proof -
  assume "sublist truncation_marker s"
  then have "set truncation_marker \<subseteq> set s" by (rule set_mono_sublist)
  then show ?thesis by (simp add: truncation_marker_def)
qed

lemma marker_not_blank: "sublist truncation_marker s \<Longrightarrow> strip s \<noteq> []"
proof -
  assume "sublist truncation_marker s"
  then have "CHR ''['' \<in> set s" by (rule marker_has_bracket)
  moreover have "\<not> isspace (CHR ''['')" by (simp add: isspace_def)
  ultimately show ?thesis unfolding strip_empty_iff by blast
qed




lemma marker_in_layout2:
  assumes "a \<notin> set line1" and "a \<notin> set hdr1" and "a \<notin> set hdr2" and "c \<notin> set (a # m)"
  shows "sublist (a # m) (line1 @ hdr1 @ body1 @ c # hdr2 @ body2) \<longleftrightarrow>
           sublist (a # m) body1 \<or> sublist (a # m) body2"
proof -
  have "sublist (a # m) (line1 @ hdr1 @ body1 @ c # hdr2 @ body2) \<longleftrightarrow>
        sublist (a # m) (hdr1 @ body1 @ c # hdr2 @ body2)"
    using assms(1) by (rule marker_after_prefix)
  also have "\<dots> \<longleftrightarrow> sublist (a # m) (body1 @ c # hdr2 @ body2)"
    using assms(2) by (rule marker_after_prefix)
  also have "\<dots> \<longleftrightarrow> sublist (a # m) body1 \<or> sublist (a # m) (hdr2 @ body2)"
    using assms(4) by (rule marker_around)
  also have "sublist (a # m) (hdr2 @ body2) \<longleftrightarrow> sublist (a # m) body2"
    using assms(3) by (rule marker_after_prefix)
  finally show ?thesis .
qed

lemma marker_in_layout1:
  assumes "a \<notin> set line1" and "a \<notin> set hdr1"
  shows "sublist (a # m) (line1 @ hdr1 @ body1) \<longleftrightarrow> sublist (a # m) body1"
proof -
  have "sublist (a # m) (line1 @ hdr1 @ body1) \<longleftrightarrow> sublist (a # m) (hdr1 @ body1)"
    using assms(1) by (rule marker_after_prefix)
  also have "\<dots> \<longleftrightarrow> sublist (a # m) body1"
    using assms(2) by (rule marker_after_prefix)
  finally show ?thesis .
qed

lemma marker_in_summary:
  "sublist truncation_marker
     (sr_summary (format_output
        \<lparr>raw_stdout = Some out, raw_stderr = Some err, raw_exit_code = Some code\<rparr>)) \<longleftrightarrow>
   (strip out \<noteq> [] \<and> (2000 < length out \<or> sublist truncation_marker out)) \<or>
   (strip err \<noteq> [] \<and> (500 < length err \<or> sublist truncation_marker err))"
proof -
  define line1 where "line1 = ''Command exited with code '' @ str_int code @ ''.\<newline>''"
  define hdr1 where "hdr1 = ''\<newline>stdout ('' @ str_nat (length out) @ '' bytes):\<newline>''"
  define hdr0 where "hdr0 = ''\<newline>No stdout output.''"
  define hdr2 where "hdr2 = ''\<newline>stderr ('' @ str_nat (length err) @ '' bytes):\<newline>''"
  define body1 where "body1 = take 2000 out @ (if 2000 < length out then '' [truncated]'' else [])"
  define body2 where "body2 = take 500 err @ (if 500 < length err then '' [truncated]'' else [])"
  define m where "m = ''truncated]''"
  have M: "truncation_marker = CHR ''['' # m" by (simp add: truncation_marker_def m_def)
  have n1: "CHR ''['' \<notin> set line1" unfolding line1_def by (rule bracket_not_in_exit_line)
  have n2: "CHR ''['' \<notin> set hdr1" unfolding hdr1_def by (rule bracket_not_in_stdout_header)
  have n0: "CHR ''['' \<notin> set hdr0" unfolding hdr0_def by simp
  have n3: "CHR ''['' \<notin> set hdr2" unfolding hdr2_def by (rule bracket_not_in_stderr_header)
  have nl: "CHR ''\<newline>'' \<notin> set (CHR ''['' # m)" by (simp add: m_def)
  have b1: "sublist truncation_marker body1 \<longleftrightarrow> 2000 < length out \<or> sublist truncation_marker out"
    unfolding body1_def by (rule marker_in_preview)
  have b2: "sublist truncation_marker body2 \<longleftrightarrow> 500 < length err \<or> sublist truncation_marker err"
    unfolding body2_def by (rule marker_in_preview)
  have shape: "sr_summary (format_output
        \<lparr>raw_stdout = Some out, raw_stderr = Some err, raw_exit_code = Some code\<rparr>) =
      line1 @ (if strip out \<noteq> [] then hdr1 @ body1 else hdr0 @ []) @
        (if strip err \<noteq> [] then CHR ''\<newline>'' # hdr2 @ body2 else [])"
    unfolding line1_def hdr1_def hdr0_def hdr2_def body1_def body2_def
    by (simp add: summary_shape)
  show ?thesis
  proof (cases "strip out = []")
    case blank_out: True
    show ?thesis
    proof (cases "strip err = []")
      case True
      with blank_out have "sr_summary (format_output
        \<lparr>raw_stdout = Some out, raw_stderr = Some err, raw_exit_code = Some code\<rparr>) =
          line1 @ hdr0 @ []" by (simp add: shape)
      moreover have "sublist (CHR ''['' # m) (line1 @ hdr0 @ []) \<longleftrightarrow> sublist (CHR ''['' # m) []"
        using n1 n0 by (rule marker_in_layout1)
      ultimately show ?thesis using blank_out True by (simp add: M)
    next
      case False
      with blank_out have "sr_summary (format_output
        \<lparr>raw_stdout = Some out, raw_stderr = Some err, raw_exit_code = Some code\<rparr>) =
          line1 @ hdr0 @ [] @ CHR ''\<newline>'' # hdr2 @ body2" by (simp add: shape)
      moreover have "sublist (CHR ''['' # m) (line1 @ hdr0 @ [] @ CHR ''\<newline>'' # hdr2 @ body2) \<longleftrightarrow>
          sublist (CHR ''['' # m) [] \<or> sublist (CHR ''['' # m) body2"
        using n1 n0 n3 nl by (rule marker_in_layout2)
      ultimately show ?thesis using blank_out False b2 by (simp add: M)
    qed
  next
    case some_out: False
    show ?thesis
    proof (cases "strip err = []")
      case True
      with some_out have "sr_summary (format_output
        \<lparr>raw_stdout = Some out, raw_stderr = Some err, raw_exit_code = Some code\<rparr>) =
          line1 @ hdr1 @ body1" by (simp add: shape)
      moreover have "sublist (CHR ''['' # m) (line1 @ hdr1 @ body1) \<longleftrightarrow> sublist (CHR ''['' # m) body1"
        using n1 n2 by (rule marker_in_layout1)
      ultimately show ?thesis using some_out True b1 by (simp add: M)
    next
      case False
      with some_out have "sr_summary (format_output
        \<lparr>raw_stdout = Some out, raw_stderr = Some err, raw_exit_code = Some code\<rparr>) =
          line1 @ hdr1 @ body1 @ CHR ''\<newline>'' # hdr2 @ body2" by (simp add: shape)
      moreover have "sublist (CHR ''['' # m) (line1 @ hdr1 @ body1 @ CHR ''\<newline>'' # hdr2 @ body2) \<longleftrightarrow>
          sublist (CHR ''['' # m) body1 \<or> sublist (CHR ''['' # m) body2"
        using n1 n2 n3 nl by (rule marker_in_layout2)
      ultimately show ?thesis using some_out False b1 b2 by (simp add: M)
    qed
  qed
qed

section \<open>Shell structurer and the two executors: results\<close>

lemma shell_summary_marker:
  "sublist truncation_marker (shell_summary out err code) \<longleftrightarrow>
   (strip out \<noteq> [] \<and> (2000 < length out \<or> sublist truncation_marker out)) \<or>
   (strip err \<noteq> [] \<and> (500 < length err \<or> sublist truncation_marker err))"
  unfolding shell_summary_def by (rule marker_in_summary)

lemma replicate_not_blank: "0 < n \<Longrightarrow> \<not> isspace c \<Longrightarrow> strip (replicate n c) \<noteq> []"
  by (simp add: strip_empty_iff)

lemma replicate_blank: "isspace c \<Longrightarrow> strip (replicate n c) = []"
  by (simp add: strip_empty_iff)

text \<open>
  C5, as the code has it. For every shell execution result whose stdout is longer than
  2000 characters and not whitespace-only, the summary contains the first 2000 characters
  of stdout followed by \<open>" [truncated]"\<close>. For every stdout of at most 2000 characters,
  the summary contains the marker \<open>[truncated]\<close> exactly when stdout itself contains
  it, or stderr is not whitespace-only and is longer than 500 characters or contains it.
\<close>

theorem format_output_truncation:
  "(2000 < length out \<and> strip out \<noteq> [] \<longrightarrow>
      sublist (take 2000 out @ '' [truncated]'') (shell_summary out err code)) \<and>
   (length out \<le> 2000 \<longrightarrow>
      (sublist truncation_marker (shell_summary out err code) \<longleftrightarrow>
         sublist truncation_marker out \<or>
         (strip err \<noteq> [] \<and> (500 < length err \<or> sublist truncation_marker err))))"
proof (intro conjI impI)
  assume h: "2000 < length out \<and> strip out \<noteq> []"
  define pre where "pre = (''Command exited with code '' @ str_int code @ ''.\<newline>'') @
      (''\<newline>stdout ('' @ str_nat (length out) @ '' bytes):\<newline>'')"
  define post where "post = (if strip err \<noteq> []
      then CHR ''\<newline>'' # (''\<newline>stderr ('' @ str_nat (length err) @ '' bytes):\<newline>'') @ take 500 err
           @ (if 500 < length err then '' [truncated]'' else [])
      else [])"
  from h have "shell_summary out err code = pre @ (take 2000 out @ '' [truncated]'') @ post"
    unfolding shell_summary_def pre_def post_def by (simp add: summary_shape)
  then show "sublist (take 2000 out @ '' [truncated]'') (shell_summary out err code)"
    by (simp only: sublist_appendI)
next
  assume h: "length out \<le> 2000"
  have "sublist truncation_marker out \<Longrightarrow> strip out \<noteq> []" by (rule marker_not_blank)
  with h show "sublist truncation_marker (shell_summary out err code) \<longleftrightarrow>
         sublist truncation_marker out \<or>
         (strip err \<noteq> [] \<and> (500 < length err \<or> sublist truncation_marker err))"
    unfolding shell_summary_marker by auto
qed

text \<open>
  C5 at concrete inputs: 2001 times \<open>x\<close> is truncated; \<open>ok\<close> with an empty
  stderr has no marker.
\<close>

theorem format_output_truncation_witness:
  "2000 < length (replicate 2001 (CHR ''x'')) \<and> strip (replicate 2001 (CHR ''x'')) \<noteq> [] \<and>
   sublist (take 2000 (replicate 2001 (CHR ''x'')) @ '' [truncated]'')
     (shell_summary (replicate 2001 (CHR ''x'')) '''' 0) \<and>
   length ''ok'' \<le> 2000 \<and> \<not> sublist truncation_marker (shell_summary ''ok'' '''' 0)"
proof -
  have a: "strip (replicate 2001 (CHR ''x'')) \<noteq> []"
    by (rule replicate_not_blank) (simp_all add: isspace_def)
  have b: "\<not> sublist truncation_marker ''ok''"
    using marker_has_bracket [of "''ok''"] by auto
  have c: "strip '''' = []" by (simp add: strip_def)
  from a b c show ?thesis
    using format_output_truncation [of "replicate 2001 (CHR ''x'')" "''''" 0]
      format_output_truncation [of "''ok''" "''''" 0]
    by simp
qed

text \<open>
  C5 as stated fails twice. A stdout of 2001 spaces is longer than 2000 characters and
  its summary has no marker (and no stdout block). The stdout \<open>ok\<close> is shorter than
  2000 characters, and with a stderr of 501 characters the summary contains the marker.
\<close>

theorem format_output_truncation_counterexample:
  "2000 < length (replicate 2001 (CHR '' '')) \<and>
   \<not> sublist truncation_marker (shell_summary (replicate 2001 (CHR '' '')) '''' 0) \<and>
   length ''ok'' \<le> 2000 \<and>
   sublist truncation_marker (shell_summary ''ok'' (replicate 501 (CHR ''x'')) 0)"
proof -
  have a: "strip (replicate 2001 (CHR '' '')) = []"
    by (rule replicate_blank) (simp add: isspace_def)
  have b: "strip (replicate 501 (CHR ''x'')) \<noteq> []"
    by (rule replicate_not_blank) (simp_all add: isspace_def)
  have c: "strip '''' = []" by (simp add: strip_def)
  from a b c show ?thesis by (simp add: shell_summary_marker)
qed

text \<open>
  C9, as the code has it. For every shell execution result whose stdout is non-empty and
  whitespace-only (\<open>strip\<close> leaves nothing: see \<open>strip_empty_iff\<close>), whatever its
  length: the structured result carries stdout unchanged; the summary starts with the
  exit-code line and the line \<open>No stdout output.\<close> and is the very summary of an empty
  stdout, so it has no stdout block; and it contains the marker \<open>[truncated]\<close> exactly
  when the stderr block brings it: stderr is not whitespace-only and is longer than 500
  characters or contains the marker itself.
\<close>

theorem format_output_blank_stdout:
  assumes "out \<noteq> []" and "strip out = []"
  shows "sr_stdout (format_output
           \<lparr>raw_stdout = Some out, raw_stderr = Some err, raw_exit_code = Some code\<rparr>) = out \<and>
         prefix (''Command exited with code '' @ str_int code @ ''.\<newline>\<newline>No stdout output.'')
           (shell_summary out err code) \<and>
         shell_summary out err code = shell_summary [] err code \<and>
         (sublist truncation_marker (shell_summary out err code) \<longleftrightarrow>
            strip err \<noteq> [] \<and> (500 < length err \<or> sublist truncation_marker err))"
proof (intro conjI)
  show "sr_stdout (format_output
           \<lparr>raw_stdout = Some out, raw_stderr = Some err, raw_exit_code = Some code\<rparr>) = out"
    by (simp add: format_output_def Let_def)
next
  have "strip [] = []" by (simp add: strip_def)
  with assms(2) show "shell_summary out err code = shell_summary [] err code"
    unfolding shell_summary_def summary_shape by simp
next
  define post where "post = (if strip err \<noteq> []
      then CHR ''\<newline>'' # (''\<newline>stderr ('' @ str_nat (length err) @ '' bytes):\<newline>'') @ take 500 err
           @ (if 500 < length err then '' [truncated]'' else [])
      else [])"
  from assms(2) have "shell_summary out err code =
      (''Command exited with code '' @ str_int code @ ''.\<newline>\<newline>No stdout output.'') @ post"
    unfolding shell_summary_def post_def by (simp add: summary_shape)
  then show "prefix (''Command exited with code '' @ str_int code @ ''.\<newline>\<newline>No stdout output.'')
           (shell_summary out err code)"
    by (simp only: prefixI)
next
  from assms(2) show "sublist truncation_marker (shell_summary out err code) \<longleftrightarrow>
            strip err \<noteq> [] \<and> (500 < length err \<or> sublist truncation_marker err)"
    unfolding shell_summary_marker by simp
qed

text \<open>C9 at the stdout of a space and a newline, with an empty stderr and exit code 0.\<close>

theorem format_output_blank_stdout_witness:
  "'' \<newline>'' \<noteq> [] \<and> strip '' \<newline>'' = [] \<and>
   sr_stdout (format_output
     \<lparr>raw_stdout = Some '' \<newline>'', raw_stderr = Some '''', raw_exit_code = Some 0\<rparr>) = '' \<newline>'' \<and>
   prefix (''Command exited with code '' @ str_int 0 @ ''.\<newline>\<newline>No stdout output.'')
     (shell_summary '' \<newline>'' '''' 0) \<and>
   shell_summary '' \<newline>'' '''' 0 = shell_summary '''' '''' 0 \<and>
   \<not> sublist truncation_marker (shell_summary '' \<newline>'' '''' 0)"
proof -
  have a: "strip '' \<newline>'' = []" by (simp add: strip_def isspace_def)
  have b: "strip '''' = []" by (simp add: strip_def)
  have c: "'' \<newline>'' \<noteq> []" by simp
  from b show ?thesis
    using format_output_blank_stdout [OF c a, of "''''" 0] a c by blast
qed

text \<open>
  C9 as stated fails: with a stdout of one space and a stderr of 501 characters, the
  summary contains the truncation marker (of the stderr block).
\<close>

theorem format_output_blank_stdout_counterexample:
  "'' '' \<noteq> [] \<and> strip '' '' = [] \<and>
   sublist truncation_marker (shell_summary '' '' (replicate 501 (CHR ''x'')) 1)"
proof -
  have a: "strip '' '' = []" by (simp add: strip_def isspace_def)
  have b: "strip (replicate 501 (CHR ''x'')) \<noteq> []"
    by (rule replicate_not_blank) (simp_all add: isspace_def)
  from a b show ?thesis by (simp add: shell_summary_marker)
qed

text \<open>
  C2, as the code has it. The shell executor never fails on the exit status: whenever
  the process was spawned it returns the three values, whatever the exit code and
  stdout. The scan executor fails exactly when the exit code is not zero and stdout is
  empty or whitespace-only, with a \<open>RuntimeError\<close> whose message carries the exit code
  and the decoded stderr; otherwise it returns the decoded stdout.
\<close>

theorem execute_stage_exit_status:
  "(\<forall>proc. spawn (shell_cmd cmd_input) = Inr proc \<longrightarrow>
      run_shell_command spawn decode cmd_input =
        Inr \<lparr>raw_stdout = Some (decode (stdout_bytes proc)),
             raw_stderr = Some (decode (stderr_bytes proc)),
             raw_exit_code = Some (returncode proc)\<rparr>) \<and>
   (\<forall>cmd proc. nmap_cmd scan_input = Inr cmd \<and> spawn cmd = Inr proc \<longrightarrow>
      run_nmap_scan spawn decode scan_input =
        (if returncode proc \<noteq> 0 \<and> strip (decode (stdout_bytes proc)) = []
         then Inl (RuntimeError (''nmap exited with code '' @ str_int (returncode proc)
                                  @ ''. stderr: '' @ decode (stderr_bytes proc)))
         else Inr (decode (stdout_bytes proc))))"
  by (simp add: run_shell_command_def run_nmap_scan_def nmap_finish_def Let_def)

lemma strip_Nil: "strip [] = []"
  by (simp add: strip_def)

lemma nmap_cmd_example:
  "nmap_cmd \<lparr>target = ''scanme.nmap.org'', nmap_args = ''-sT'', scan_id = ''scan-1''\<rparr> =
     Inr [''nmap'', ''-sT'', ''-oX'', ''-'', ''scanme.nmap.org'']"
  by (simp add: nmap_cmd_def scan_tokens_def strip_def isspace_def shlex_split_def
      shlex_whitespace_def shlex_quotes_def emit_def)

text \<open>
  C2 at concrete processes: a shell command that exits with 127 and no output, and an
  nmap run that exits with 1 and no output.
\<close>

theorem execute_stage_exit_status_witness:
  "run_shell_command
     (\<lambda>cmd. Inr \<lparr>stdout_bytes = '''', stderr_bytes = ''sh: 1: nosuch: not found'', returncode = 127\<rparr>)
     (\<lambda>b. b) \<lparr>command = ''nosuch'', task_id = ''task-1''\<rparr> =
     Inr \<lparr>raw_stdout = Some '''', raw_stderr = Some ''sh: 1: nosuch: not found'',
          raw_exit_code = Some 127\<rparr> \<and>
   run_nmap_scan
     (\<lambda>cmd. Inr \<lparr>stdout_bytes = '''', stderr_bytes = ''Failed to resolve'', returncode = 1\<rparr>)
     (\<lambda>b. b) \<lparr>target = ''scanme.nmap.org'', nmap_args = ''-sT'', scan_id = ''scan-1''\<rparr> =
     Inl (RuntimeError ''nmap exited with code 1. stderr: Failed to resolve'')"
  using execute_stage_exit_status
      [of "\<lambda>cmd. Inr \<lparr>stdout_bytes = '''', stderr_bytes = ''sh: 1: nosuch: not found'', returncode = 127\<rparr>"
          "\<lparr>command = ''nosuch'', task_id = ''task-1''\<rparr>" "\<lambda>b. b"]
    execute_stage_exit_status
      [of "\<lambda>cmd. Inr \<lparr>stdout_bytes = '''', stderr_bytes = ''Failed to resolve'', returncode = 1\<rparr>"
          _ "\<lambda>b. b" "\<lparr>target = ''scanme.nmap.org'', nmap_args = ''-sT'', scan_id = ''scan-1''\<rparr>"]
  by (simp add: nmap_cmd_example strip_Nil str_int_def str_nat.simps digit_char_def)

text \<open>
  C2 as stated fails twice. The shell executor reports success for a process that
  exited with 127 and wrote nothing to stdout. The scan executor fails for a process
  that exited with 1 although it wrote to stdout (a newline).
\<close>

theorem execute_stage_exit_status_counterexample:
  "run_shell_command
     (\<lambda>cmd. Inr \<lparr>stdout_bytes = '''', stderr_bytes = ''sh: 1: nosuch: not found'', returncode = 127\<rparr>)
     (\<lambda>b. b) \<lparr>command = ''nosuch'', task_id = ''task-1''\<rparr> =
     Inr \<lparr>raw_stdout = Some '''', raw_stderr = Some ''sh: 1: nosuch: not found'',
          raw_exit_code = Some 127\<rparr> \<and>
   run_nmap_scan
     (\<lambda>cmd. Inr \<lparr>stdout_bytes = ''\<newline>'', stderr_bytes = ''Failed to resolve'', returncode = 1\<rparr>)
     (\<lambda>b. b) \<lparr>target = ''scanme.nmap.org'', nmap_args = ''-sT'', scan_id = ''scan-1''\<rparr> =
     Inl (RuntimeError ''nmap exited with code 1. stderr: Failed to resolve'')"
  by (simp add: run_shell_command_def run_nmap_scan_def nmap_finish_def nmap_cmd_example
      strip_def isspace_def str_int_def str_nat.simps digit_char_def)


section \<open>Scan validation and the scan command: results\<close>

lemma check_flags_None: "check_flags toks = None \<longleftrightarrow> (\<forall>t\<in>set toks. canonical t \<notin> BLOCKED_FLAGS)"
  by (induction toks) auto

lemma check_flags_ValueError: "check_flags toks = Some e \<Longrightarrow> \<exists>m. e = ValueError m"
  by (induction toks) (auto split: if_splits)

lemma isspace_cases:
  "isspace c \<longleftrightarrow> c = CHR 0x09 \<or> c = CHR 0x0A \<or> c = CHR 0x0B \<or> c = CHR 0x0C \<or> c = CHR 0x0D \<or>
     c = CHR 0x1C \<or> c = CHR 0x1D \<or> c = CHR 0x1E \<or> c = CHR 0x1F \<or> c = CHR 0x20 \<or>
     c = CHR 0x85 \<or> c = CHR 0xA0"
  by (simp add: isspace_def)

lemma isspace_not_special:
  assumes "isspace c"
  shows "c \<noteq> CHR 0x5C" and "c \<notin> shlex_quotes" and "c \<noteq> CHR ''-''"
  using assms by (auto simp: isspace_cases shlex_quotes_def)

lemma shlex_run_blank_input:
  assumes "\<forall>c\<in>set cs. isspace c" and "\<forall>c\<in>set tok. isspace c" and "st = Blank \<or> st = Word"
  shows "\<exists>toks. shlex_run st tok quoted cs = Some toks \<and> (\<forall>t\<in>set toks. \<forall>c\<in>set t. isspace c)"
  using assms
proof (induction cs arbitrary: st tok quoted)
  case Nil
  then show ?case by auto
next
  case (Cons c cs)
  from Cons.prems(1) have sp: "isspace c" and rest: "\<forall>c\<in>set cs. isspace c" by auto
  note ns = isspace_not_special [OF sp]
  have blank: "\<exists>toks. shlex_run Blank [] False cs = Some toks \<and> (\<forall>t\<in>set toks. \<forall>c\<in>set t. isspace c)"
    using Cons.IH [of "[]" Blank False] rest by simp
  have keep: "\<exists>toks. shlex_run Blank tok quoted cs = Some toks \<and> (\<forall>t\<in>set toks. \<forall>c\<in>set t. isspace c)"
    using Cons.IH [of tok Blank quoted] rest Cons.prems(2) by simp
  have start: "\<exists>toks. shlex_run Word [c] quoted cs = Some toks \<and> (\<forall>t\<in>set toks. \<forall>c\<in>set t. isspace c)"
    using Cons.IH [of "[c]" Word quoted] rest sp by simp
  have grow: "\<exists>toks. shlex_run Word (tok @ [c]) quoted cs = Some toks \<and> (\<forall>t\<in>set toks. \<forall>c\<in>set t. isspace c)"
    using Cons.IH [of "tok @ [c]" Word quoted] rest sp Cons.prems(2) by simp
  from blank obtain toks where toks: "shlex_run Blank [] False cs = Some toks"
    "\<forall>t\<in>set toks. \<forall>c\<in>set t. isspace c" by blast
  have emitted: "\<exists>toks'. emit tok (shlex_run Blank [] False cs) = Some toks' \<and>
      (\<forall>t\<in>set toks'. \<forall>c\<in>set t. isspace c)"
    using toks Cons.prems(2) by (simp add: emit_def)
  from Cons.prems(3) show ?case
  proof
    assume "st = Blank"
    then show ?thesis using ns emitted keep start blank by auto
  next
    assume "st = Word"
    then show ?thesis using ns emitted keep grow blank by auto
  qed
qed

lemma lower_char_dash: "lower_char c = CHR ''-'' \<Longrightarrow> c = CHR ''-''"
proof (cases "map_of (zip uppercase lowercase) c")
  case None
  assume "lower_char c = CHR ''-''"
  with None show ?thesis by (simp add: lower_char_def)
next
  case (Some l)
  assume "lower_char c = CHR ''-''"
  with Some have "l = CHR ''-''" by (simp add: lower_char_def)
  moreover from Some have "(c, l) \<in> set (zip uppercase lowercase)" by (rule map_of_SomeD)
  then have "l \<in> set lowercase" by (rule set_zip_rightD)
  ultimately have "CHR ''-'' \<in> set lowercase" by simp
  then show ?thesis by (simp add: lowercase_def)
qed

lemma blocked_flag_dash: "f \<in> BLOCKED_FLAGS \<Longrightarrow> \<exists>r. f = CHR ''-'' # r"
  by (auto simp: BLOCKED_FLAGS_def)

lemma canonical_blocked_dash:
  assumes "canonical t \<in> BLOCKED_FLAGS"
  shows "\<exists>r. t = CHR ''-'' # r"
proof -
  from assms obtain r where r: "canonical t = CHR ''-'' # r" using blocked_flag_dash by blast
  then obtain c cs where t: "t = c # cs" by (cases t) (auto simp: canonical_def lower_def)
  with r have "lower_char c = CHR ''-''"
    by (auto simp: canonical_def lower_def split: if_splits)
  then have "c = CHR ''-''" by (rule lower_char_dash)
  with t show ?thesis by simp
qed

lemma blank_token_not_blocked:
  assumes "\<forall>c\<in>set t. isspace c"
  shows "canonical t \<notin> BLOCKED_FLAGS"
proof
  assume "canonical t \<in> BLOCKED_FLAGS"
  then obtain r where "t = CHR ''-'' # r" using canonical_blocked_dash by blast
  with assms have "isspace (CHR ''-'')" by simp
  then show False by (simp add: isspace_def)
qed

lemma shlex_split_blank:
  assumes "strip args = []"
  shows "\<exists>toks. shlex_split args = Some toks \<and> (\<forall>t\<in>set toks. canonical t \<notin> BLOCKED_FLAGS)"
proof -
  from assms have "\<forall>c\<in>set args. isspace c" by (simp add: strip_empty_iff)
  then obtain toks where "shlex_run Blank [] False args = Some toks"
    and "\<forall>t\<in>set toks. \<forall>c\<in>set t. isspace c"
    using shlex_run_blank_input [of args "[]" Blank False] by auto
  then show ?thesis using blank_token_not_blocked by (auto simp: shlex_split_def)
qed

lemma scan_tokens_split:
  "(\<exists>toks. scan_tokens args = Some toks \<and> (\<forall>t\<in>set toks. canonical t \<notin> BLOCKED_FLAGS)) \<longleftrightarrow>
   (\<exists>toks. shlex_split args = Some toks \<and> (\<forall>t\<in>set toks. canonical t \<notin> BLOCKED_FLAGS))"
proof (cases "strip args = []")
  case True
  then show ?thesis using shlex_split_blank [of args] by (simp add: scan_tokens_def)
next
  case False
  then show ?thesis by (simp add: scan_tokens_def)
qed

lemma validate_scan_input_True:
  "validate_scan_input scan_input = Inr True \<longleftrightarrow>
     \<not> blocked_search (target scan_input) \<and> \<not> blocked_search (nmap_args scan_input) \<and>
     (\<exists>toks. scan_tokens (nmap_args scan_input) = Some toks \<and>
        (\<forall>t\<in>set toks. canonical t \<notin> BLOCKED_FLAGS)) \<and>
     strip (target scan_input) \<noteq> []"
  by (auto simp: validate_scan_input_def Let_def check_flags_None [symmetric]
      split: option.splits)

lemma validate_scan_input_total:
  "validate_scan_input scan_input = Inr True \<or>
   (\<exists>m. validate_scan_input scan_input = Inl (ValueError m))"
  using check_flags_ValueError
  by (auto simp: validate_scan_input_def Let_def split: option.splits)

text \<open>
  C1. \<open>validate_scan_input\<close> returns \<open>True\<close> exactly when none of the four
  conditions holds: the target and the arguments contain no character of the deny-list
  (\<open>; & | ` $ ( ) { } < >\<close>, newline, carriage return), the arguments tokenize as shell
  words, no token is a blocked flag once cut at its first \<open>=\<close> and lower-cased, and
  the target is not empty after trimming. On every other input it raises: it returns a
  \<open>ValueError\<close>.
\<close>

theorem validate_scan_input_accepts_iff:
  "(validate_scan_input scan_input = Inr True \<longleftrightarrow>
      \<not> (\<exists>c\<in>set (target scan_input). c \<in> BLOCKED_METACHARACTERS) \<and>
      \<not> (\<exists>c\<in>set (nmap_args scan_input). c \<in> BLOCKED_METACHARACTERS) \<and>
      (\<exists>tokens. shlex_split (nmap_args scan_input) = Some tokens \<and>
         (\<forall>token\<in>set tokens. canonical token \<notin> BLOCKED_FLAGS)) \<and>
      strip (target scan_input) \<noteq> []) \<and>
   (validate_scan_input scan_input \<noteq> Inr True \<longrightarrow>
      (\<exists>m. validate_scan_input scan_input = Inl (ValueError m)))"
proof
  show "validate_scan_input scan_input = Inr True \<longleftrightarrow>
      \<not> (\<exists>c\<in>set (target scan_input). c \<in> BLOCKED_METACHARACTERS) \<and>
      \<not> (\<exists>c\<in>set (nmap_args scan_input). c \<in> BLOCKED_METACHARACTERS) \<and>
      (\<exists>tokens. shlex_split (nmap_args scan_input) = Some tokens \<and>
         (\<forall>token\<in>set tokens. canonical token \<notin> BLOCKED_FLAGS)) \<and>
      strip (target scan_input) \<noteq> []"
    unfolding validate_scan_input_True scan_tokens_split blocked_search_def ..
next
  show "validate_scan_input scan_input \<noteq> Inr True \<longrightarrow>
      (\<exists>m. validate_scan_input scan_input = Inl (ValueError m))"
    using validate_scan_input_total [of scan_input] by blast
qed

lemmas scan_eval =
  BLOCKED_METACHARACTERS_def BLOCKED_FLAGS_def shlex_split_def shlex_whitespace_def
  shlex_quotes_def emit_def canonical_def lower_def lower_char_def uppercase_def
  lowercase_def strip_def isspace_def

text \<open>
  C1 at concrete inputs: the default arguments of a scan are accepted, and the target
  \<open>scanme.nmap.org; rm -rf /\<close> of the specification is refused.
\<close>

theorem validate_scan_input_accepts_iff_witness:
  "validate_scan_input
     \<lparr>target = ''scanme.nmap.org'', nmap_args = ''-sT --top-ports 100'', scan_id = ''scan-1''\<rparr>
     = Inr True \<and>
   shlex_split ''-sT --top-ports 100'' = Some [''-sT'', ''--top-ports'', ''100''] \<and>
   (\<exists>m. validate_scan_input
     \<lparr>target = ''scanme.nmap.org; rm -rf /'', nmap_args = ''-sT'', scan_id = ''scan-2''\<rparr>
     = Inl (ValueError m))"
proof -
  have s: "shlex_split ''-sT --top-ports 100'' = Some [''-sT'', ''--top-ports'', ''100'']"
    by (simp add: shlex_split_def shlex_whitespace_def shlex_quotes_def emit_def)
  have a: "validate_scan_input
     \<lparr>target = ''scanme.nmap.org'', nmap_args = ''-sT --top-ports 100'', scan_id = ''scan-1''\<rparr>
     = Inr True"
    using validate_scan_input_accepts_iff
      [of "\<lparr>target = ''scanme.nmap.org'', nmap_args = ''-sT --top-ports 100'', scan_id = ''scan-1''\<rparr>"]
    by (simp add: s) (simp add: scan_eval)
  have b: "\<exists>m. validate_scan_input
     \<lparr>target = ''scanme.nmap.org; rm -rf /'', nmap_args = ''-sT'', scan_id = ''scan-2''\<rparr>
     = Inl (ValueError m)"
    using validate_scan_input_accepts_iff
      [of "\<lparr>target = ''scanme.nmap.org; rm -rf /'', nmap_args = ''-sT'', scan_id = ''scan-2''\<rparr>"]
    by (simp add: BLOCKED_METACHARACTERS_def)
  from a s b show ?thesis by blast
qed

lemma blank_blocked_search:
  assumes "strip s = []"
  shows "blocked_search s \<longleftrightarrow> CHR 0x0A \<in> set s \<or> CHR 0x0D \<in> set s"
proof
  assume "blocked_search s"
  then obtain c where c: "c \<in> set s" "c \<in> BLOCKED_METACHARACTERS"
    by (auto simp: blocked_search_def)
  from assms c(1) have "isspace c" by (simp add: strip_empty_iff)
  with c(2) have "c = CHR 0x0A \<or> c = CHR 0x0D"
    by (auto simp: isspace_cases BLOCKED_METACHARACTERS_def)
  with c(1) show "CHR 0x0A \<in> set s \<or> CHR 0x0D \<in> set s" by auto
next
  assume "CHR 0x0A \<in> set s \<or> CHR 0x0D \<in> set s"
  then show "blocked_search s"
    by (auto simp: blocked_search_def BLOCKED_METACHARACTERS_def)
qed

text \<open>
  C10, as the code has it. For every scan input whose arguments are empty or
  whitespace-only and hold no newline and no carriage return, and whose target passes
  the deny-list and is not empty after trimming: validation succeeds, the arguments give
  no token, and the argument vector handed to the process spawn is exactly
  \<open>["nmap", "-oX", "-", target]\<close>: \<open>nmap\<close> itself is the program, not a shell.
\<close>

theorem blank_args_scan:
  assumes "strip (nmap_args scan_input) = []"
    and "CHR 0x0A \<notin> set (nmap_args scan_input)"
    and "CHR 0x0D \<notin> set (nmap_args scan_input)"
    and "\<not> blocked_search (target scan_input)"
    and "strip (target scan_input) \<noteq> []"
  shows "validate_scan_input scan_input = Inr True \<and>
         scan_tokens (nmap_args scan_input) = Some [] \<and>
         nmap_cmd scan_input = Inr [''nmap'', ''-oX'', ''-'', target scan_input] \<and>
         run_nmap_scan spawn decode scan_input =
           (case spawn [''nmap'', ''-oX'', ''-'', target scan_input] of
              Inl e \<Rightarrow> Inl e
            | Inr proc \<Rightarrow> nmap_finish decode proc)"
proof -
  from assms(1,2,3) have nb: "\<not> blocked_search (nmap_args scan_input)"
    by (simp add: blank_blocked_search)
  from assms(1) have toks: "scan_tokens (nmap_args scan_input) = Some []"
    by (simp add: scan_tokens_def)
  from nb toks assms(4,5) have "validate_scan_input scan_input = Inr True"
    by (simp add: validate_scan_input_def)
  moreover from toks have cmd: "nmap_cmd scan_input = Inr [''nmap'', ''-oX'', ''-'', target scan_input]"
    by (simp add: nmap_cmd_def)
  moreover from cmd have "run_nmap_scan spawn decode scan_input =
           (case spawn [''nmap'', ''-oX'', ''-'', target scan_input] of
              Inl e \<Rightarrow> Inl e
            | Inr proc \<Rightarrow> nmap_finish decode proc)"
    by (simp add: run_nmap_scan_def)
  ultimately show ?thesis using toks by blast
qed

text \<open>C10 at the arguments of one space and the target \<open>192.168.1.0/24\<close>.\<close>

theorem blank_args_scan_witness:
  "strip '' '' = [] \<and> CHR 0x0A \<notin> set '' '' \<and> CHR 0x0D \<notin> set '' '' \<and>
   \<not> blocked_search ''192.168.1.0/24'' \<and> strip ''192.168.1.0/24'' \<noteq> [] \<and>
   validate_scan_input \<lparr>target = ''192.168.1.0/24'', nmap_args = '' '', scan_id = ''scan-1''\<rparr>
     = Inr True \<and>
   nmap_cmd \<lparr>target = ''192.168.1.0/24'', nmap_args = '' '', scan_id = ''scan-1''\<rparr>
     = Inr [''nmap'', ''-oX'', ''-'', ''192.168.1.0/24'']"
proof -
  have a: "strip '' '' = []" by (simp add: strip_def isspace_def)
  have b: "\<not> blocked_search ''192.168.1.0/24''"
    by (simp add: blocked_search_def BLOCKED_METACHARACTERS_def)
  have c: "strip ''192.168.1.0/24'' \<noteq> []" by (simp add: strip_def isspace_def)
  show ?thesis
    using blank_args_scan
      [of "\<lparr>target = ''192.168.1.0/24'', nmap_args = '' '', scan_id = ''scan-1''\<rparr>"]
      a b c
    by simp
qed

text \<open>
  C10 as stated fails: the arguments of one newline are whitespace-only and the target
  passes its checks, yet validation raises, since a newline is on the deny-list.
\<close>

theorem blank_args_scan_counterexample:
  "strip ''\<newline>'' = [] \<and> \<not> blocked_search ''scanme.nmap.org'' \<and>
   strip ''scanme.nmap.org'' \<noteq> [] \<and>
   validate_scan_input \<lparr>target = ''scanme.nmap.org'', nmap_args = ''\<newline>'', scan_id = ''scan-1''\<rparr>
     = Inl (ValueError ''Arguments contain blocked characters: \<newline>'')"
  by (simp add: validate_scan_input_def blocked_search_def BLOCKED_METACHARACTERS_def
      strip_def isspace_def)

text \<open>
  C8, as the code has it. In the shell variant every execution that spawned its process
  returns a dictionary with the three keys: the decoded stdout, the decoded stderr and
  the exit code. In the scan variant a successful execution returns one string, the
  decoded stdout of the process it spawned, and nothing else.
\<close>

theorem execute_stage_result:
  "(\<forall>proc. spawn (shell_cmd cmd_input) = Inr proc \<longrightarrow>
      (\<exists>r. run_shell_command spawn decode cmd_input = Inr r \<and>
           raw_stdout r = Some (decode (stdout_bytes proc)) \<and>
           raw_stderr r = Some (decode (stderr_bytes proc)) \<and>
           raw_exit_code r = Some (returncode proc))) \<and>
   (\<forall>out. run_nmap_scan spawn decode scan_input = Inr out \<longrightarrow>
      (\<exists>cmd proc. nmap_cmd scan_input = Inr cmd \<and> spawn cmd = Inr proc \<and>
           out = decode (stdout_bytes proc)))"
  by (auto simp: run_shell_command_def run_nmap_scan_def nmap_finish_def Let_def
      split: sum.splits if_splits)

text \<open>C8 at concrete processes, one of each variant.\<close>

theorem execute_stage_result_witness:
  "(\<exists>r. run_shell_command
          (\<lambda>cmd. Inr \<lparr>stdout_bytes = ''hello'', stderr_bytes = '''', returncode = 0\<rparr>)
          (\<lambda>b. b) \<lparr>command = ''echo hello'', task_id = ''task-1''\<rparr> = Inr r \<and>
        raw_stdout r = Some ''hello'' \<and> raw_stderr r = Some '''' \<and> raw_exit_code r = Some 0) \<and>
   run_nmap_scan
     (\<lambda>cmd. Inr \<lparr>stdout_bytes = ''<nmaprun/>'', stderr_bytes = ''warning'', returncode = 0\<rparr>)
     (\<lambda>b. b) \<lparr>target = ''scanme.nmap.org'', nmap_args = ''-sT'', scan_id = ''scan-1''\<rparr>
     = Inr ''<nmaprun/>''"
proof -
  have a: "run_nmap_scan
     (\<lambda>cmd. Inr \<lparr>stdout_bytes = ''<nmaprun/>'', stderr_bytes = ''warning'', returncode = 0\<rparr>)
     (\<lambda>b. b) \<lparr>target = ''scanme.nmap.org'', nmap_args = ''-sT'', scan_id = ''scan-1''\<rparr>
     = Inr ''<nmaprun/>''"
    by (simp add: run_nmap_scan_def nmap_cmd_example nmap_finish_def)
  show ?thesis
    using execute_stage_result
      [of "\<lambda>cmd. Inr \<lparr>stdout_bytes = ''hello'', stderr_bytes = '''', returncode = 0\<rparr>"
          "\<lparr>command = ''echo hello'', task_id = ''task-1''\<rparr>" "\<lambda>b. b"] a
    by simp
qed

text \<open>
  C8 as stated fails for the scan variant: two processes with the same stdout, one with
  an empty stderr and exit code 0, the other with a warning on stderr and exit code 1,
  give the same result. The result carries neither the stderr nor the exit code.
\<close>

theorem execute_stage_result_counterexample:
  "run_nmap_scan
     (\<lambda>cmd. Inr \<lparr>stdout_bytes = ''<nmaprun/>'', stderr_bytes = '''', returncode = 0\<rparr>)
     (\<lambda>b. b) \<lparr>target = ''scanme.nmap.org'', nmap_args = ''-sT'', scan_id = ''scan-1''\<rparr>
     = Inr ''<nmaprun/>'' \<and>
   run_nmap_scan
     (\<lambda>cmd. Inr \<lparr>stdout_bytes = ''<nmaprun/>'', stderr_bytes = ''warning'', returncode = 1\<rparr>)
     (\<lambda>b. b) \<lparr>target = ''scanme.nmap.org'', nmap_args = ''-sT'', scan_id = ''scan-1''\<rparr>
     = Inr ''<nmaprun/>''"
  by (simp add: run_nmap_scan_def nmap_cmd_example nmap_finish_def strip_def isspace_def)


section \<open>Scan structurer: results\<close>


lemma py_int_22: "py_int ''22'' = Some 22"
  by (simp add: py_int_def strip_def isspace_def digit_value_def)

lemma str_int_22: "str_int 22 = ''22''"
  by (simp add: str_int_def str_nat.simps digit_char_def)






lemma fixture_scan_info:
  "parse_scan_info fixture_root =
     Inr \<lparr>si_scanner = ''nmap'', si_args = '''', si_start_time = '''', si_xml_version = '''',
          si_end_time = None, si_elapsed = None,
          si_hosts_up = Some 1, si_hosts_down = Some 0, si_hosts_total = Some 1\<rparr>"
  by (simp add: parse_scan_info_def fixture_root_def fixture_host_def get_attr_def
      find_elem_def int_attr_def py_int_def strip_def isspace_def digit_value_def Let_def)


lemma fixture_summary:
  "parse_nmap_xml (\<lambda>text. Some fixture_root) raw_xml =
     Inr \<lparr>r_scan_info =
            \<lparr>si_scanner = ''nmap'', si_args = '''', si_start_time = '''', si_xml_version = '''',
             si_end_time = None, si_elapsed = None,
             si_hosts_up = Some 1, si_hosts_down = Some 0, si_hosts_total = Some 1\<rparr>,
          r_hosts =
            [\<lparr>h_status = Some ''up'',
              h_addresses = [\<lparr>a_addr = ''45.33.32.156'', a_type = ''ipv4'', a_vendor = ''''\<rparr>],
              h_hostnames = [],
              h_ports = [\<lparr>p_port = 22, p_protocol = ''tcp'', p_state = Some ''open'',
                          p_reason = Some ''syn-ack'', p_service = Some ''ssh'',
                          p_product = Some '''', p_version = Some '''', p_extra_info = Some '''',
                          p_scripts = None\<rparr>],
              h_os_matches = [], h_host_scripts = None,
              h_open_ports_summary = ''22/tcp (ssh)''\<rparr>],
          r_summary = ''Nmap scan completed. 1 host(s) up out of 1 scanned.\<newline>\<newline>Host 1: 45.33.32.156 [up]\<newline>  Open ports: 22/tcp (ssh)''\<rparr>"
  by (simp add: parse_nmap_xml_def parse_root_def fixture_scan_info)
    (simp add: fixture_root_def fixture_host_def fixture_port_def findall_def find_elem_def
      parse_host_def parse_port_def int_attr_def py_int_22 get_attr_def Let_def port_entry_def
      str_int_22 scan_summary_parts_def host_lines_def str_int_def str_nat.simps digit_char_def)


section \<open>Pipeline orchestrator: results\<close>










section \<open>Task registry: results\<close>

lemma check_task_status_propagates:
  "describe_status cl tid = Inl e \<Longrightarrow>
   check_task_status (Inr cl) reg tid = (Inl e, reg) \<and>
   get_task_results (Inr cl) reg tid = (Inl e, reg)"
  by (simp add: check_task_status_def get_task_results_def)

text \<open>
  C4 fails on the code. For a task identifier the engine does not know,
  \<open>handle.describe()\<close> raises; \<open>check_task_status\<close> and \<open>get_task_results\<close> have
  no handler and the exception reaches the caller, where the claim promises a result of
  status UNKNOWN. \<open>list_recent_tasks\<close>, in the same file, catches the same exception
  and lists the task as UNKNOWN.
\<close>

theorem check_task_status_unknown_id_raises:
  "check_task_status
     (Inr \<lparr>describe_status = (\<lambda>tid. Inl (RPCError ''workflow not found for ID'')),
           handle_result = (\<lambda>tid. Inl (RPCError ''workflow not found for ID''))\<rparr>)
     [] ''task-0123456789ab'' = (Inl (RPCError ''workflow not found for ID''), []) \<and>
   get_task_results
     (Inr \<lparr>describe_status = (\<lambda>tid. Inl (RPCError ''workflow not found for ID'')),
           handle_result = (\<lambda>tid. Inl (RPCError ''workflow not found for ID''))\<rparr>)
     [] ''task-0123456789ab'' = (Inl (RPCError ''workflow not found for ID''), []) \<and>
   fst (list_recent_tasks
     (Inr \<lparr>describe_status = (\<lambda>tid. Inl (RPCError ''workflow not found for ID'')),
           handle_result = (\<lambda>tid. Inl (RPCError ''workflow not found for ID''))\<rparr>)
     [(''task-0123456789ab'',
       \<lparr>tm_command = ''sleep 1'', tm_label = ''sleep 1'', tm_started_at = ''2024-01-01T00:00:00+00:00'',
        tm_status = ''RUNNING''\<rparr>)]) =
     Inr (1, [(''task-0123456789ab'',
       \<lparr>tm_command = ''sleep 1'', tm_label = ''sleep 1'', tm_started_at = ''2024-01-01T00:00:00+00:00'',
        tm_status = ''UNKNOWN''\<rparr>)])"
  by (simp add: check_task_status_def get_task_results_def list_recent_tasks_def refresh_def)

end
